theory Spec2Isabelle
  imports Complex_Main
begin

section \<open>Grid pooling of trajnetbaselines/lstm/pooling.py\<close>

text \<open>
  The module computes, for every agent of a scene, a grid descriptor of its neighbours.
  It holds two engines: \<open>FastPooling\<close>, which treats all agents in one pass, and
  \<open>Pooling\<close>, which treats one agent at a time.

  Tensor elements are modelled as real numbers extended by the not-a-number value.
  Rounding, overflow and the infinities of IEEE arithmetic are not modelled: a division
  by zero gives \<open>NaN\<close> here, so every statement about binning assumes a positive
  \<open>cell_side\<close>. A tensor of shape \<open>N \<times> 2\<close> is a list of pairs, a tensor of shape
  \<open>N \<times> H\<close> a list of lists, and every exception of the source is a value \<open>Inl e\<close>.
\<close>

subsection \<open>Tensor elements\<close>

datatype flt = NaN | Fin real

fun fadd :: "flt \<Rightarrow> flt \<Rightarrow> flt" where
  "fadd (Fin a) (Fin b) = Fin (a + b)"
| "fadd _ _ = NaN"

fun fsub :: "flt \<Rightarrow> flt \<Rightarrow> flt" where
  "fsub (Fin a) (Fin b) = Fin (a - b)"
| "fsub _ _ = NaN"

fun fmul :: "flt \<Rightarrow> flt \<Rightarrow> flt" where
  "fmul (Fin a) (Fin b) = Fin (a * b)"
| "fmul _ _ = NaN"

fun fdiv :: "flt \<Rightarrow> flt \<Rightarrow> flt" where
  "fdiv (Fin a) (Fin b) = (if b = 0 then NaN else Fin (a / b))"
| "fdiv _ _ = NaN"

fun fneg :: "flt \<Rightarrow> flt" where
  "fneg (Fin a) = Fin (- a)"
| "fneg NaN = NaN"

fun fsign :: "flt \<Rightarrow> flt" where
  "fsign (Fin a) = Fin (sgn a)"
| "fsign NaN = NaN"

fun fabs :: "flt \<Rightarrow> flt" where
  "fabs (Fin a) = Fin \<bar>a\<bar>"
| "fabs NaN = NaN"

fun frelu :: "flt \<Rightarrow> flt" where
  "frelu (Fin a) = Fin (max 0 a)"
| "frelu NaN = NaN"

text \<open>Comparisons with a scalar; every comparison with \<open>NaN\<close> is false.\<close>

fun flt_lt :: "flt \<Rightarrow> real \<Rightarrow> bool" where
  "flt_lt (Fin a) c = (a < c)"
| "flt_lt NaN c = False"

fun flt_ge :: "flt \<Rightarrow> real \<Rightarrow> bool" where
  "flt_ge (Fin a) c = (a \<ge> c)"
| "flt_ge NaN c = False"

text \<open>\<open>torch.isnan\<close>, and \<open>x != x\<close>, which holds of \<open>NaN\<close> only.\<close>

fun isnan :: "flt \<Rightarrow> bool" where
  "isnan NaN = True"
| "isnan (Fin a) = False"

datatype error =
    RuntimeError
  | IndexError
  | TypeError
  | ZeroDivisionError
  | UndefinedCast

text \<open>
  \<open>.long()\<close> truncates towards zero. The conversion of \<open>NaN\<close> to a 64-bit
  integer is undefined; the model stops there with \<open>UndefinedCast\<close>.
\<close>

fun long :: "flt \<Rightarrow> error + int" where
  "long (Fin a) = Inr (if 0 \<le> a then \<lfloor>a\<rfloor> else \<lceil>a\<rceil>)"
| "long NaN = Inl UndefinedCast"

text \<open>
  \<open>np.arctan2\<close>, \<open>math.cos\<close> and \<open>math.sin\<close>; \<open>np.arctan2\<close> is the angle of the
  point \<open>(x, y)\<close> in \<open>(-\<pi>, \<pi>]\<close>, and \<open>0\<close> at the origin.
\<close>

definition arctan2 :: "real \<Rightarrow> real \<Rightarrow> real" where
  "arctan2 y x =
     (if 0 < x then arctan (y / x)
      else if x < 0 then (if 0 \<le> y then arctan (y / x) + pi else arctan (y / x) - pi)
      else if 0 < y then pi / 2
      else if y < 0 then - (pi / 2)
      else 0)"

fun farctan2 :: "flt \<Rightarrow> flt \<Rightarrow> flt" where
  "farctan2 (Fin y) (Fin x) = Fin (arctan2 y x)"
| "farctan2 _ _ = NaN"

fun fcos :: "flt \<Rightarrow> flt" where
  "fcos (Fin a) = Fin (cos a)"
| "fcos NaN = NaN"

fun fsin :: "flt \<Rightarrow> flt" where
  "fsin (Fin a) = Fin (sin a)"
| "fsin NaN = NaN"

subsection \<open>Tensors as lists\<close>

type_synonym vec = "flt list"
type_synonym pos = "flt \<times> flt"
type_synonym grid = "flt list list"

definition zeros :: "nat \<Rightarrow> vec" where
  "zeros k = replicate k (Fin 0)"

definition ones :: "nat \<Rightarrow> vec" where
  "ones k = replicate k (Fin 1)"

definition psub :: "pos \<Rightarrow> pos \<Rightarrow> pos" where
  "psub p q = (fsub (fst p) (fst q), fsub (snd p) (snd q))"

definition vec_of :: "pos \<Rightarrow> vec" where
  "vec_of p = [fst p, snd p]"

text \<open>Running a fallible function over a list stops at the first error.\<close>

fun mapE :: "('a \<Rightarrow> error + 'b) \<Rightarrow> 'a list \<Rightarrow> error + 'b list" where
  "mapE f [] = Inr []"
| "mapE f (x # xs) =
     (case f x of
        Inl e \<Rightarrow> Inl e
      | Inr y \<Rightarrow> (case mapE f xs of Inl e \<Rightarrow> Inl e | Inr ys \<Rightarrow> Inr (y # ys)))"

text \<open>\<open>xs[i]\<close> for \<open>i\<close> in \<open>range(n)\<close>: an index past the end raises.\<close>

definition index :: "'a list \<Rightarrow> nat \<Rightarrow> error + 'a" where
  "index xs i = (if i < length xs then Inr (xs ! i) else Inl IndexError)"

text \<open>
  \<open>one_cold(i, n)\<close> is the mask that is false at \<open>i\<close> only, and \<open>xs[mask]\<close> keeps the
  rows where the mask holds; a mask of another length raises.
\<close>

definition one_cold :: "nat \<Rightarrow> nat \<Rightarrow> bool list" where
  "one_cold i n = (replicate n True)[i := False]"

definition bool_index :: "'a list \<Rightarrow> bool list \<Rightarrow> error + 'a list" where
  "bool_index xs msk =
     (if length msk \<noteq> length xs then Inl IndexError
      else Inr (map fst (filter snd (zip xs msk))))"

text \<open>
  \<open>obs2 - obs1\<close> on tensors of shape \<open>N \<times> 2\<close> and \<open>M \<times> 2\<close>: a tensor with one row
  is broadcast, other unequal row counts raise.
\<close>

definition tensor_sub :: "pos list \<Rightarrow> pos list \<Rightarrow> error + pos list" where
  "tensor_sub a b =
     (if length a = length b then Inr (map (\<lambda>(p, q). psub p q) (zip a b))
      else if length b = 1 then Inr (map (\<lambda>p. psub p (hd b)) a)
      else if length a = 1 then Inr (map (\<lambda>q. psub (hd a) q) b)
      else Inl RuntimeError)"

text \<open>
  \<open>torch.stack\<close> of the rows of the agents: it raises on an empty list and on rows of
  different lengths.
\<close>

definition stack :: "vec list \<Rightarrow> error + vec list" where
  "stack rows =
     (case rows of
        [] \<Rightarrow> Inl RuntimeError
      | r # rs \<Rightarrow> if \<forall>r' \<in> set rs. length r' = length r then Inr rows else Inl RuntimeError)"

subsection \<open>Pooling operators of torch\<close>

definition fsum :: "flt list \<Rightarrow> flt" where
  "fsum xs = foldr fadd xs (Fin 0)"

text \<open>Zero padding of \<open>p\<close> cells on every side of a square grid.\<close>

definition pad2d :: "nat \<Rightarrow> grid \<Rightarrow> grid" where
  "pad2d p g =
     (let z = replicate (length g + 2 * p) (Fin 0)
      in replicate p z @ map (\<lambda>r. replicate p (Fin 0) @ r @ replicate p (Fin 0)) g @ replicate p z)"

definition pool_out :: "nat \<Rightarrow> nat \<Rightarrow> nat \<Rightarrow> nat" where
  "pool_out m k s = (m - k) div s + 1"

text \<open>
  \<open>avg_pool2d(g, k, s, p, count_include_pad=True)\<close> on a square grid: the mean of every
  \<open>k \<times> k\<close> window of the padded grid, taken with stride \<open>s\<close>; the divisor is always
  \<open>k * k\<close>. It raises when the kernel is empty or larger than the padded grid, and
  when the padding exceeds half of the kernel.
\<close>

definition avg_pool2d :: "grid \<Rightarrow> nat \<Rightarrow> nat \<Rightarrow> nat \<Rightarrow> error + grid" where
  "avg_pool2d g k s p =
     (if k = 0 \<or> s = 0 \<or> length g + 2 * p < k \<or> k div 2 < p then Inl RuntimeError
      else Inr (map (\<lambda>i. map (\<lambda>j.
             fdiv (fsum (concat (map (\<lambda>a. map (\<lambda>b. pad2d p g ! (i * s + a) ! (j * s + b))
                                               [0..<k]) [0..<k])))
                  (Fin (real (k * k))))
             [0..<pool_out (length g + 2 * p) k s]) [0..<pool_out (length g + 2 * p) k s]))"

text \<open>
  \<open>lp_pool2d(g, 1, k)\<close>: torch computes \<open>sign(a) * relu(|a|) * (k * k)\<close> with \<open>a\<close> the
  average pooling of the grid with kernel and stride \<open>k\<close>, which is the sum of every block.
\<close>

definition lp_pool2d :: "grid \<Rightarrow> nat \<Rightarrow> error + grid" where
  "lp_pool2d g k =
     (case avg_pool2d g k k 0 of
        Inl e \<Rightarrow> Inl e
      | Inr out \<Rightarrow>
          Inr (map (map (\<lambda>a. fmul (fmul (fsign a) (frelu (fabs a))) (Fin (real (k * k))))) out))"

subsection \<open>Engine configuration\<close>

datatype variant = Occupancy | Directional | Social

text \<open>
  The fields of both classes; \<open>n_cells\<close> is the field \<open>n\<close> of the source,
  \<open>pool_type\<close> the field \<open>type_\<close>, and
  \<open>embedding_in\<close> the input width of the linear layer of \<open>embedding\<close>.
\<close>

record engine =
  cell_side :: real
  n_cells :: int
  pool_type :: variant
  pool_size :: int
  blur_size :: int
  pooling_dim :: int
  front :: bool
  out_dim :: int
  embedding_in :: int

text \<open>
  \<open>__init__\<close> stores its arguments, derives \<open>pooling_dim\<close> and \<open>out_dim\<close> and builds
  the linear layer; \<open>torch.nn.Linear\<close> raises on a negative width. The defaults of the
  source are \<open>cell_side=2.0, n=4, hidden_dim=128, out_dim=None, type_='occupancy',
  pool_size=8, blur_size=0, front=False\<close>.
\<close>

definition Linear :: "int \<Rightarrow> int \<Rightarrow> error + int" where
  "Linear in_features out_features =
     (if in_features < 0 \<or> out_features < 0 then Inl RuntimeError else Inr in_features)"

definition FastPooling_init ::
  "real \<Rightarrow> int \<Rightarrow> int \<Rightarrow> int option \<Rightarrow> variant \<Rightarrow> int \<Rightarrow> int \<Rightarrow> bool \<Rightarrow> error + engine" where
  "FastPooling_init cell_side' n hidden_dim out_dim' type' pool_size' blur_size' front' =
     (let pd = (case type' of Occupancy \<Rightarrow> 1 | Directional \<Rightarrow> 2 | Social \<Rightarrow> hidden_dim);
          od = (case out_dim' of None \<Rightarrow> hidden_dim | Some d \<Rightarrow> d)
      in case Linear (n * n * pd) od of
           Inl e \<Rightarrow> Inl e
         | Inr emb \<Rightarrow>
             Inr \<lparr>cell_side = cell_side', n_cells = n, pool_type = type', pool_size = pool_size',
                  blur_size = blur_size', pooling_dim = pd, front = front', out_dim = od,
                  embedding_in = emb\<rparr>)"

definition Pooling_init ::
  "real \<Rightarrow> int \<Rightarrow> int \<Rightarrow> int option \<Rightarrow> variant \<Rightarrow> int \<Rightarrow> int \<Rightarrow> bool \<Rightarrow> error + engine" where
  "Pooling_init cell_side' n hidden_dim out_dim' type' pool_size' blur_size' front' =
     (let pd = (case type' of Occupancy \<Rightarrow> 1 | Directional \<Rightarrow> 2 | Social \<Rightarrow> hidden_dim);
          od = (case out_dim' of None \<Rightarrow> hidden_dim | Some d \<Rightarrow> d)
      in case Linear (n * n * pd) od of
           Inl e \<Rightarrow> Inl e
         | Inr emb \<Rightarrow>
             Inr \<lparr>cell_side = cell_side', n_cells = n, pool_type = type', pool_size = pool_size',
                  blur_size = blur_size', pooling_dim = pd, front = front', out_dim = od,
                  embedding_in = emb\<rparr>)"

subsection \<open>Grid indexing\<close>

definition desc_len :: "engine \<Rightarrow> nat" where
  "desc_len e = nat (n_cells e * n_cells e * pooling_dim e)"

definition grid_side :: "engine \<Rightarrow> nat" where
  "grid_side e = nat (n_cells e * pool_size e)"

text \<open>\<open>self.cell_side / self.pool_size\<close>, a division of Python numbers.\<close>

definition cell_width :: "engine \<Rightarrow> error + real" where
  "cell_width e =
     (if pool_size e = 0 then Inl ZeroDivisionError
      else Inr (cell_side e / real_of_int (pool_size e)))"

text \<open>\<open>self.n * self.pool_size / 2\<close>\<close>

definition grid_centre :: "engine \<Rightarrow> real" where
  "grid_centre e = real_of_int (n_cells e * pool_size e) / 2"

text \<open>\<open>(oij < 0) + (oij >= self.n * self.pool_size)\<close>, summed over the two axes.\<close>

definition violation :: "engine \<Rightarrow> flt \<Rightarrow> bool" where
  "violation e v = (flt_lt v 0 \<or> flt_ge v (real_of_int (n_cells e * pool_size e)))"

definition range_violations :: "engine \<Rightarrow> pos \<Rightarrow> nat" where
  "range_violations e v =
     (if violation e (fst v) then 1 else 0) + (if violation e (snd v) then 1 else 0)"

definition range_mask :: "engine \<Rightarrow> pos \<Rightarrow> bool" where
  "range_mask e v = (range_violations e v = 0)"

text \<open>\<open>relative / (self.cell_side / self.pool_size) + c\<close> on one axis.\<close>

definition bin_axis :: "real \<Rightarrow> real \<Rightarrow> flt \<Rightarrow> flt" where
  "bin_axis w c r = fadd (fdiv r (Fin w)) (Fin c)"

text \<open>\<open>oij.long()\<close> and \<open>oij[:, 0] * self.n * self.pool_size + oij[:, 1]\<close>\<close>

definition long_pos :: "pos \<Rightarrow> error + int \<times> int" where
  "long_pos v =
     (case long (fst v) of
        Inl err \<Rightarrow> Inl err
      | Inr a \<Rightarrow> (case long (snd v) of Inl err \<Rightarrow> Inl err | Inr b \<Rightarrow> Inr (a, b)))"

definition linear_index :: "engine \<Rightarrow> int \<times> int \<Rightarrow> int" where
  "linear_index e c = fst c * n_cells e * pool_size e + snd c"

text \<open>
  The rotation of the front mode: \<open>r = [[ct, st], [-st, ct]]\<close> for
  \<open>theta = pi / 2 - arctan2(xy[1] - past_xy[1], xy[0] - past_xy[0])\<close>, and
  \<open>einsum('tc,ci->ti', relative_pos, r)\<close> on one row.
\<close>

definition rotation :: "pos \<Rightarrow> pos \<Rightarrow> (flt \<times> flt) \<times> (flt \<times> flt)" where
  "rotation xy past_xy =
     (let velocity = farctan2 (fsub (snd xy) (snd past_xy)) (fsub (fst xy) (fst past_xy));
          theta = fsub (Fin (pi / 2)) velocity;
          ct = fcos theta;
          st = fsin theta
      in ((ct, st), (fneg st, ct)))"

definition einsum :: "pos \<Rightarrow> (flt \<times> flt) \<times> (flt \<times> flt) \<Rightarrow> pos" where
  "einsum p r =
     (fadd (fmul (fst p) (fst (fst r))) (fmul (snd p) (fst (snd r))),
      fadd (fmul (fst p) (snd (fst r))) (fmul (snd p) (snd (snd r))))"

subsection \<open>Scatter and pooling of one agent\<close>

text \<open>
  \<open>occ[oi] = other_values\<close>: the rows are written in the order of the index tensor, so
  of two rows with the same index the later one stays. A negative index counts from the
  end, an index out of bounds raises, and a value row is broadcast to the width of the
  cell when it has one element.
\<close>

definition broadcast_to :: "nat \<Rightarrow> vec \<Rightarrow> error + vec" where
  "broadcast_to w v =
     (if length v = w then Inr v
      else if length v = 1 then Inr (replicate w (hd v))
      else Inl RuntimeError)"

fun index_put :: "vec list \<Rightarrow> (int \<times> vec) list \<Rightarrow> nat \<Rightarrow> error + vec list" where
  "index_put occ [] w = Inr occ"
| "index_put occ ((i, v) # rest) w =
     (let j = (if i < 0 then i + int (length occ) else i)
      in if 0 \<le> j \<and> j < int (length occ)
         then (case broadcast_to w v of
                 Inl err \<Rightarrow> Inl err
               | Inr v' \<Rightarrow> index_put (occ[nat j := v']) rest w)
         else Inl IndexError)"

text \<open>
  \<open>torch.transpose(occ, 0, 1)\<close> followed by \<open>view(1, -1, L, L)\<close>: one \<open>L \<times> L\<close> grid
  for every channel.
\<close>

definition occ_2d :: "nat \<Rightarrow> nat \<Rightarrow> vec list \<Rightarrow> grid list" where
  "occ_2d L pd occ =
     map (\<lambda>c. map (\<lambda>r. map (\<lambda>col. occ ! (r * L + col) ! c) [0..<L]) [0..<L]) [0..<pd]"

text \<open>\<open>occ_summed.view(-1)\<close>\<close>

definition flatten :: "grid list \<Rightarrow> vec" where
  "flatten gs = concat (map concat gs)"

text \<open>The distances of \<open>Pooling.occupancy\<close>, in world axes or in the frame of the agent.\<close>

definition Pooling_oij :: "engine \<Rightarrow> pos \<Rightarrow> pos list \<Rightarrow> pos option \<Rightarrow> error + pos list" where
  "Pooling_oij e xy oxy past_xy =
     (if \<not> front e then
        (case cell_width e of
           Inl err \<Rightarrow> Inl err
         | Inr w \<Rightarrow>
             Inr (map (\<lambda>p. (bin_axis w (grid_centre e) (fst (psub p xy)),
                             bin_axis w (grid_centre e) (snd (psub p xy)))) oxy))
      else
        (case past_xy of
           None \<Rightarrow> Inl TypeError
         | Some past \<Rightarrow>
             (case cell_width e of
                Inl err \<Rightarrow> Inl err
              | Inr w \<Rightarrow>
                  Inr (map (\<lambda>p. (bin_axis w (grid_centre e) (fst (einsum (psub p xy) (rotation xy past))),
                                  bin_axis w 0 (snd (einsum (psub p xy) (rotation xy past))))) oxy))))"

text \<open>The part of \<open>Pooling.occupancy\<close> after the range filter: scatter, blur, pooling.\<close>

definition Pooling_pool :: "engine \<Rightarrow> int list \<Rightarrow> vec list \<Rightarrow> error + vec" where
  "Pooling_pool e oi other_values =
     (case index_put (replicate (nat ((n_cells e)\<^sup>2 * (pool_size e)\<^sup>2)) (zeros (nat (pooling_dim e))))
             (zip oi other_values) (nat (pooling_dim e)) of
        Inl err \<Rightarrow> Inl err
      | Inr occ \<Rightarrow>
          (case (if blur_size e = 0 then Inr (occ_2d (grid_side e) (nat (pooling_dim e)) occ)
                 else if blur_size e < 0 then Inl RuntimeError
                 else mapE (\<lambda>g. avg_pool2d g (nat (blur_size e)) 1 (nat (blur_size e) div 2))
                        (occ_2d (grid_side e) (nat (pooling_dim e)) occ)) of
             Inl err \<Rightarrow> Inl err
           | Inr occ_blurred \<Rightarrow>
               (case mapE (\<lambda>g. lp_pool2d g (nat (pool_size e))) occ_blurred of
                  Inl err \<Rightarrow> Inl err
                | Inr occ_summed \<Rightarrow> Inr (flatten occ_summed))))"

definition Pooling_occupancy ::
  "engine \<Rightarrow> pos \<Rightarrow> pos list option \<Rightarrow> vec list option \<Rightarrow> pos option \<Rightarrow> error + vec" where
  "Pooling_occupancy e xy other_xy other_values past_xy =
     (case other_xy of
        None \<Rightarrow> Inr (zeros (desc_len e))
      | Some oxy0 \<Rightarrow>
          if isnan (fst xy) \<or> length oxy0 = 0 then Inr (zeros (desc_len e))
          else
            (case bool_index oxy0 (map (\<lambda>p. \<not> isnan (fst p)) oxy0) of
               Inl err \<Rightarrow> Inl err
             | Inr oxy \<Rightarrow>
            (case bool_index
                    (case other_values of None \<Rightarrow> replicate (length oxy0) (ones 1) | Some v \<Rightarrow> v)
                    (map (\<lambda>p. \<not> isnan (fst p)) oxy0) of
               Inl err \<Rightarrow> Inl err
             | Inr vals \<Rightarrow>
            if length oxy = 0 then Inr (zeros (desc_len e))
            else
            (case Pooling_oij e xy oxy past_xy of
               Inl err \<Rightarrow> Inl err
             | Inr oij \<Rightarrow>
            (case bool_index oij (map (range_mask e) oij) of
               Inl err \<Rightarrow> Inl err
             | Inr oij_in \<Rightarrow>
            (case mapE long_pos oij_in of
               Inl err \<Rightarrow> Inl err
             | Inr oij_long \<Rightarrow>
            (case bool_index vals (map (range_mask e) oij) of
               Inl err \<Rightarrow> Inl err
             | Inr vals_in \<Rightarrow>
            if length oij_long = 0 then Inr (zeros (desc_len e))
            else Pooling_pool e (map (linear_index e) oij_long) vals_in)))))))"

subsection \<open>The per-agent engine\<close>

definition Pooling_occupancies :: "engine \<Rightarrow> pos list \<Rightarrow> error + vec list" where
  "Pooling_occupancies e obs =
     (case mapE (\<lambda>i. case bool_index obs (one_cold i (length obs)) of
                        Inl err \<Rightarrow> Inl err
                      | Inr others \<Rightarrow> Pooling_occupancy e (obs ! i) (Some others) None None)
             [0..<length obs] of
        Inl err \<Rightarrow> Inl err
      | Inr rows \<Rightarrow> stack rows)"

text \<open>
  The relative velocities of the neighbours of agent \<open>i\<close>:
  \<open>(obs2 - obs1)[one_cold(i, n)] - (obs2 - obs1)[i]\<close>
\<close>

definition rel_velocities :: "pos list \<Rightarrow> pos list \<Rightarrow> nat \<Rightarrow> error + vec list" where
  "rel_velocities obs1 obs2 i =
     (case tensor_sub obs2 obs1 of
        Inl err \<Rightarrow> Inl err
      | Inr vel \<Rightarrow>
          (case bool_index vel (one_cold i (length obs2)) of
             Inl err \<Rightarrow> Inl err
           | Inr others \<Rightarrow>
               (case index vel i of
                  Inl err \<Rightarrow> Inl err
                | Inr own \<Rightarrow> Inr (map (\<lambda>v. vec_of (psub v own)) others))))"

definition Pooling_directional :: "engine \<Rightarrow> pos list \<Rightarrow> pos list \<Rightarrow> error + vec list" where
  "Pooling_directional e obs1 obs2 =
     (if length obs2 = 1 then
        (case Pooling_occupancy e (obs2 ! 0) None None None of
           Inl err \<Rightarrow> Inl err
         | Inr row \<Rightarrow> Inr [row])
      else
        (case mapE (\<lambda>i. case bool_index obs2 (one_cold i (length obs2)) of
                           Inl err \<Rightarrow> Inl err
                         | Inr others \<Rightarrow>
                             (case rel_velocities obs1 obs2 i of
                                Inl err \<Rightarrow> Inl err
                              | Inr vals \<Rightarrow>
                                  Pooling_occupancy e (obs2 ! i) (Some others) (Some vals) None))
                [0..<length obs2] of
           Inl err \<Rightarrow> Inl err
         | Inr rows \<Rightarrow> stack rows))"

definition Pooling_social :: "engine \<Rightarrow> vec list \<Rightarrow> pos list \<Rightarrow> error + vec list" where
  "Pooling_social e hidden_state obs =
     (case mapE (\<lambda>i. case bool_index obs (one_cold i (length obs)) of
                        Inl err \<Rightarrow> Inl err
                      | Inr others \<Rightarrow>
                          (case bool_index hidden_state (one_cold i (length obs)) of
                             Inl err \<Rightarrow> Inl err
                           | Inr vals \<Rightarrow>
                               Pooling_occupancy e (obs ! i) (Some others) (Some vals) None))
             [0..<length obs] of
        Inl err \<Rightarrow> Inl err
      | Inr rows \<Rightarrow> stack rows)"

definition Pooling_front_occupancies :: "engine \<Rightarrow> pos list \<Rightarrow> pos list \<Rightarrow> error + vec list" where
  "Pooling_front_occupancies e obs obs1 =
     (case mapE (\<lambda>i. case bool_index obs (one_cold i (length obs)) of
                        Inl err \<Rightarrow> Inl err
                      | Inr others \<Rightarrow>
                          (case index obs1 i of
                             Inl err \<Rightarrow> Inl err
                           | Inr past \<Rightarrow>
                               Pooling_occupancy e (obs ! i) (Some others) None (Some past)))
             [0..<length obs] of
        Inl err \<Rightarrow> Inl err
      | Inr rows \<Rightarrow> stack rows)"

definition Pooling_front_directional :: "engine \<Rightarrow> pos list \<Rightarrow> pos list \<Rightarrow> error + vec list" where
  "Pooling_front_directional e obs1 obs2 =
     (if length obs2 = 1 then
        (case Pooling_occupancy e (obs2 ! 0) None None None of
           Inl err \<Rightarrow> Inl err
         | Inr row \<Rightarrow> Inr [row])
      else
        (case mapE (\<lambda>i. case bool_index obs2 (one_cold i (length obs2)) of
                           Inl err \<Rightarrow> Inl err
                         | Inr others \<Rightarrow>
                             (case rel_velocities obs1 obs2 i of
                                Inl err \<Rightarrow> Inl err
                              | Inr vals \<Rightarrow>
                                  (case index obs1 i of
                                     Inl err \<Rightarrow> Inl err
                                   | Inr past \<Rightarrow>
                                       Pooling_occupancy e (obs2 ! i) (Some others) (Some vals)
                                         (Some past))))
                [0..<length obs2] of
           Inl err \<Rightarrow> Inl err
         | Inr rows \<Rightarrow> stack rows))"

definition Pooling_front_social ::
  "engine \<Rightarrow> vec list \<Rightarrow> pos list \<Rightarrow> pos list \<Rightarrow> error + vec list" where
  "Pooling_front_social e hidden_state obs obs1 =
     (case mapE (\<lambda>i. case bool_index obs (one_cold i (length obs)) of
                        Inl err \<Rightarrow> Inl err
                      | Inr others \<Rightarrow>
                          (case bool_index hidden_state (one_cold i (length obs)) of
                             Inl err \<Rightarrow> Inl err
                           | Inr vals \<Rightarrow>
                               (case index obs1 i of
                                  Inl err \<Rightarrow> Inl err
                                | Inr past \<Rightarrow>
                                    Pooling_occupancy e (obs ! i) (Some others) (Some vals)
                                      (Some past))))
             [0..<length obs] of
        Inl err \<Rightarrow> Inl err
      | Inr rows \<Rightarrow> stack rows)"

text \<open>
  The grid descriptors of \<open>Pooling.forward\<close>, and \<open>forward\<close> itself; the learnt layer
  \<open>self.embedding\<close> is a parameter.
\<close>

definition Pooling_grid :: "engine \<Rightarrow> vec list \<Rightarrow> pos list \<Rightarrow> pos list \<Rightarrow> error + vec list" where
  "Pooling_grid e hidden_state obs1 obs2 =
     (if \<not> front e then
        (case pool_type e of
           Occupancy \<Rightarrow> Pooling_occupancies e obs2
         | Directional \<Rightarrow> Pooling_directional e obs1 obs2
         | Social \<Rightarrow> Pooling_social e hidden_state obs2)
      else
        (case pool_type e of
           Occupancy \<Rightarrow> Pooling_front_occupancies e obs2 obs1
         | Directional \<Rightarrow> Pooling_front_directional e obs1 obs2
         | Social \<Rightarrow> Pooling_front_social e hidden_state obs2 obs1))"


subsection \<open>The batched engine\<close>

text \<open>
  \<open>m[~torch.eye(n).bool()].reshape(n, n-1, -1)\<close> deletes the diagonal of a square
  tensor: row \<open>i\<close> keeps its entries \<open>j \<noteq> i\<close>, in order. The mask must have the shape
  of the tensor, and the reshape raises for \<open>n = 0\<close>, where \<open>n - 1\<close> is \<open>-1\<close>.
\<close>

definition delete_diagonal :: "nat \<Rightarrow> 'a list list \<Rightarrow> error + 'a list list" where
  "delete_diagonal n m =
     (if length m \<noteq> n \<or> (\<exists>r \<in> set m. length r \<noteq> n) then Inl IndexError
      else if n = 0 then Inl RuntimeError
      else Inr (map (\<lambda>i. map fst (filter snd (zip (m ! i) (one_cold i n)))) [0..<n]))"

text \<open>
  \<open>hidden_state.repeat(n, 1).view(n, n, -1)\<close> regroups the elements of \<open>n\<close> copies of
  the tensor into \<open>n \<times> n\<close> vectors; the view raises when there is no element or when
  their number is not a multiple of \<open>n * n\<close>.
\<close>

definition repeat_view :: "nat \<Rightarrow> vec list \<Rightarrow> error + vec list list" where
  "repeat_view n hs =
     (let flat = concat (concat (replicate n hs))
      in if n = 0 \<or> length flat = 0 \<or> length flat mod (n * n) \<noteq> 0 then Inl RuntimeError
         else Inr (map (\<lambda>i. map (\<lambda>j. take (length flat div (n * n))
                                      (drop ((i * n + j) * (length flat div (n * n))) flat))
                          [0..<n]) [0..<n]))"

definition FastPooling_occupancy ::
  "engine \<Rightarrow> pos list \<Rightarrow> vec list list option \<Rightarrow> error + vec list" where
  "FastPooling_occupancy e obs other_values =
     (if length obs = 1 then Inr [zeros (desc_len e)]
      else
        (case delete_diagonal (length obs) (map (\<lambda>q. map (\<lambda>p. psub p q) obs) obs) of
           Inl err \<Rightarrow> Inl err
         | Inr relative \<Rightarrow>
        (case cell_width e of
           Inl err \<Rightarrow> Inl err
         | Inr w \<Rightarrow>
        (let vals = (case other_values of
                       None \<Rightarrow> replicate (length obs)
                                 (replicate (length obs - 1) (ones (nat (pooling_dim e))))
                     | Some v \<Rightarrow> v);
             oij = map (map (\<lambda>r. (bin_axis w (grid_centre e) (fst r),
                                   bin_axis w (grid_centre e) (snd r)))) relative
         in if length vals \<noteq> length obs \<or> (\<exists>r \<in> set vals. length r \<noteq> length obs - 1)
            then Inl IndexError
            else
        (case mapE (mapE long_pos)
                (map (map (\<lambda>v. if range_mask e v then v else (Fin 0, Fin 0))) oij) of
           Inl err \<Rightarrow> Inl err
         | Inr oij_long \<Rightarrow>
        (case mapE (\<lambda>(oi, vs). index_put
                       (replicate (nat ((n_cells e)\<^sup>2 * (pool_size e)\<^sup>2)) (zeros (nat (pooling_dim e))))
                       (zip oi vs) (nat (pooling_dim e)))
                (zip (map (map (linear_index e)) oij_long)
                     (map (\<lambda>(vs, os). map (\<lambda>(v, c). if range_mask e c then v else zeros (length v))
                                         (zip vs os))
                          (zip vals oij))) of
           Inl err \<Rightarrow> Inl err
         | Inr occ \<Rightarrow>
        (case mapE (\<lambda>occ_i. mapE (\<lambda>g. lp_pool2d g (nat (pool_size e)))
                               (occ_2d (grid_side e) (nat (pooling_dim e)) occ_i)) occ of
           Inl err \<Rightarrow> Inl err
         | Inr occ_summed \<Rightarrow> Inr (map flatten occ_summed))))))))"

definition FastPooling_occupancies :: "engine \<Rightarrow> pos list \<Rightarrow> error + vec list" where
  "FastPooling_occupancies e obs = FastPooling_occupancy e obs None"

definition FastPooling_directional :: "engine \<Rightarrow> pos list \<Rightarrow> pos list \<Rightarrow> error + vec list" where
  "FastPooling_directional e obs1 obs2 =
     (if length obs2 = 1 then FastPooling_occupancy e obs2 None
      else
        (case tensor_sub obs2 obs1 of
           Inl err \<Rightarrow> Inl err
         | Inr vel \<Rightarrow>
             (case delete_diagonal (length obs2) (map (\<lambda>q. map (\<lambda>p. psub p q) vel) vel) of
                Inl err \<Rightarrow> Inl err
              | Inr relative \<Rightarrow>
                  FastPooling_occupancy e obs2 (Some (map (map vec_of) relative)))))"

definition FastPooling_social :: "engine \<Rightarrow> vec list \<Rightarrow> pos list \<Rightarrow> error + vec list" where
  "FastPooling_social e hidden_state obs =
     (if length obs = 1 then FastPooling_occupancy e obs None
      else
        (case repeat_view (length obs) hidden_state of
           Inl err \<Rightarrow> Inl err
         | Inr hidden_state_grid \<Rightarrow>
             (case delete_diagonal (length obs) hidden_state_grid of
                Inl err \<Rightarrow> Inl err
              | Inr hidden_state_grid' \<Rightarrow>
                  FastPooling_occupancy e obs (Some hidden_state_grid'))))"

definition FastPooling_grid ::
  "engine \<Rightarrow> vec list \<Rightarrow> pos list \<Rightarrow> pos list \<Rightarrow> error + vec list" where
  "FastPooling_grid e hidden_state obs1 obs2 =
     (case pool_type e of
        Occupancy \<Rightarrow> FastPooling_occupancies e obs2
      | Directional \<Rightarrow> FastPooling_directional e obs1 obs2
      | Social \<Rightarrow> FastPooling_social e hidden_state obs2)"

definition FastPooling_forward ::
  "(vec list \<Rightarrow> error + vec list) \<Rightarrow> engine \<Rightarrow> vec list \<Rightarrow> pos list \<Rightarrow> pos list
    \<Rightarrow> error + vec list" where
  "FastPooling_forward embedding e hidden_state obs1 obs2 =
     (case FastPooling_grid e hidden_state obs1 obs2 of
        Inl err \<Rightarrow> Inl err
      | Inr grid \<Rightarrow> embedding grid)"

subsection \<open>Notions used in the statements\<close>

text \<open>
  The definitions below are not part of the program: they name the inputs and the
  intermediate values that the properties speak about.
\<close>

text \<open>\<open>others i xs\<close> is \<open>xs\<close> without its entry \<open>i\<close>: what \<open>xs[one_cold(i, n)]\<close> keeps.\<close>

definition others :: "nat \<Rightarrow> 'a list \<Rightarrow> 'a list" where
  "others i xs = take i xs @ drop (Suc i) xs"

text \<open>A position that the NaN mask of \<open>Pooling.occupancy\<close> keeps: the mask reads the first coordinate only.\<close>

definition live :: "pos \<Rightarrow> bool" where
  "live p = (\<not> isnan (fst p))"

text \<open>The part of \<open>Pooling.occupancy\<close> after the NaN mask: binning, range filter, scatter, blur and pooling.\<close>

definition Pooling_binned :: "engine \<Rightarrow> pos \<Rightarrow> pos list \<Rightarrow> vec list \<Rightarrow> pos option \<Rightarrow> error + vec" where
  "Pooling_binned e xy oxy vals past_xy =
     (case Pooling_oij e xy oxy past_xy of
        Inl err \<Rightarrow> Inl err
      | Inr oij \<Rightarrow>
     (case bool_index oij (map (range_mask e) oij) of
        Inl err \<Rightarrow> Inl err
      | Inr oij_in \<Rightarrow>
     (case mapE long_pos oij_in of
        Inl err \<Rightarrow> Inl err
      | Inr oij_long \<Rightarrow>
     (case bool_index vals (map (range_mask e) oij) of
        Inl err \<Rightarrow> Inl err
      | Inr vals_in \<Rightarrow>
          if length oij_long = 0 then Inr (zeros (desc_len e))
          else Pooling_pool e (map (linear_index e) oij_long) vals_in))))"

text \<open>
  The configurations of the interface: positive sizes, and the \<open>pooling_dim\<close> that the
  constructors set for the occupancy and the directional variant.
\<close>

definition valid_engine :: "engine \<Rightarrow> bool" where
  "valid_engine e =
     (0 < cell_side e \<and> 0 < n_cells e \<and> 0 < pool_size e \<and> 0 < pooling_dim e \<and>
      (pool_type e = Occupancy \<longrightarrow> pooling_dim e = 1) \<and>
      (pool_type e = Directional \<longrightarrow> pooling_dim e = 2))"

text \<open>A position without NaN.\<close>

definition finite_pos :: "pos \<Rightarrow> bool" where
  "finite_pos p = (\<not> isnan (fst p) \<and> \<not> isnan (snd p))"





text \<open>The part of \<open>Pooling.occupancy\<close> after the binning: range filter, scatter, blur and pooling.\<close>

definition Pooling_scatter :: "engine \<Rightarrow> pos list \<Rightarrow> vec list \<Rightarrow> error + vec" where
  "Pooling_scatter e oij vals =
     (case bool_index oij (map (range_mask e) oij) of
        Inl err \<Rightarrow> Inl err
      | Inr oij_in \<Rightarrow>
     (case mapE long_pos oij_in of
        Inl err \<Rightarrow> Inl err
      | Inr oij_long \<Rightarrow>
     (case bool_index vals (map (range_mask e) oij) of
        Inl err \<Rightarrow> Inl err
      | Inr vals_in \<Rightarrow>
          if length oij_long = 0 then Inr (zeros (desc_len e))
          else Pooling_pool e (map (linear_index e) oij_long) vals_in)))"


text \<open>The integer cell of a binned position (\<open>(0, 0)\<close> where \<open>long\<close> is undefined).\<close>

definition cell_of :: "pos \<Rightarrow> int \<times> int" where
  "cell_of v = (case long_pos v of Inl err \<Rightarrow> (0, 0) | Inr c \<Rightarrow> c)"


text \<open>The binned offset of a neighbour at \<open>p\<close> from the agent at \<open>xy\<close>, in world axes.\<close>

definition world_oij :: "engine \<Rightarrow> pos \<Rightarrow> pos \<Rightarrow> pos" where
  "world_oij e xy p =
     (bin_axis (cell_side e / real_of_int (pool_size e)) (grid_centre e) (fst (psub p xy)),
      bin_axis (cell_side e / real_of_int (pool_size e)) (grid_centre e) (snd (psub p xy)))"



text \<open>Small configurations, for the concrete scenes below.\<close>

definition small_engine :: engine where
  "small_engine =
     \<lparr>cell_side = 2, n_cells = 2, pool_type = Occupancy, pool_size = 1, blur_size = 0,
      pooling_dim = 1, front = False, out_dim = 8, embedding_in = 4\<rparr>"


text \<open>A social configuration with hidden states of width 1.\<close>

definition social_engine :: engine where
  "social_engine =
     \<lparr>cell_side = 2, n_cells = 2, pool_type = Social, pool_size = 1, blur_size = 0,
      pooling_dim = 1, front = False, out_dim = 8, embedding_in = 4\<rparr>"

text \<open>The angle \<open>theta = pi/2 - arctan2(dy, dx)\<close> of an agent at \<open>(x, y)\<close> that comes from \<open>(px, py)\<close>.\<close>

definition heading_theta :: "real \<Rightarrow> real \<Rightarrow> real \<Rightarrow> real \<Rightarrow> real" where
  "heading_theta x y px py = pi / 2 - arctan2 (y - py) (x - px)"

text \<open>
  The binned offset of a neighbour at \<open>p\<close> in front mode: the offset is rotated, the first
  axis is shifted by the centre of the grid and the second axis is not shifted.
\<close>

definition front_oij :: "engine \<Rightarrow> pos \<Rightarrow> pos \<Rightarrow> pos \<Rightarrow> pos" where
  "front_oij e xy past p =
     (bin_axis (cell_side e / real_of_int (pool_size e)) (grid_centre e)
        (fst (einsum (psub p xy) (rotation xy past))),
      bin_axis (cell_side e / real_of_int (pool_size e)) 0
        (snd (einsum (psub p xy) (rotation xy past))))"

text \<open>A directional configuration in front mode with a single cell.\<close>

definition front_directional_engine :: engine where
  "front_directional_engine =
     \<lparr>cell_side = 2, n_cells = 1, pool_type = Directional, pool_size = 1, blur_size = 0,
      pooling_dim = 2, front = True, out_dim = 8, embedding_in = 2\<rparr>"




section \<open>Properties\<close>

subsection \<open>Construction\<close>

text \<open>
  C9 (as the code has it). Neither constructor checks its arguments: whatever the values
  of \<open>cell_side\<close>, \<open>n\<close> and \<open>pool_size\<close>, also zero or negative ones, the engine
  stores them as given, with \<open>pooling_dim\<close> 1, 2 or \<open>hidden_dim\<close> and \<open>out_dim\<close>
  defaulting to \<open>hidden_dim\<close>. The only failure of a construction is the one of the
  linear layer on a negative width, and both constructors are the same function.
\<close>

theorem init_stores_arguments:
  "Pooling_init cs n h od ty ps bs fr =
     (if n * n * (case ty of Occupancy \<Rightarrow> 1 | Directional \<Rightarrow> 2 | Social \<Rightarrow> h) < 0 \<or>
         (case od of None \<Rightarrow> h | Some d \<Rightarrow> d) < 0
      then Inl RuntimeError
      else Inr \<lparr>cell_side = cs, n_cells = n, pool_type = ty, pool_size = ps, blur_size = bs,
                pooling_dim = (case ty of Occupancy \<Rightarrow> 1 | Directional \<Rightarrow> 2 | Social \<Rightarrow> h),
                front = fr, out_dim = (case od of None \<Rightarrow> h | Some d \<Rightarrow> d),
                embedding_in =
                  n * n * (case ty of Occupancy \<Rightarrow> 1 | Directional \<Rightarrow> 2 | Social \<Rightarrow> h)\<rparr>) \<and>
   FastPooling_init cs n h od ty ps bs fr = Pooling_init cs n h od ty ps bs fr"
  by (simp add: Pooling_init_def FastPooling_init_def Linear_def Let_def)

theorem init_stores_arguments_witness:
  "FastPooling_init 0 (-4) 128 None Social (-8) 0 False =
     Inr \<lparr>cell_side = 0, n_cells = -4, pool_type = Social, pool_size = -8, blur_size = 0,
          pooling_dim = 128, front = False, out_dim = 128, embedding_in = 2048\<rparr>"
  using init_stores_arguments [of 0 "-4" 128 None Social "-8" 0 False] by simp

text \<open>
  The claim as the specification states it fails: a construction with a negative
  \<open>cell_side\<close> and \<open>pool_size = 0\<close> returns an engine, in both classes.
\<close>

theorem init_nonpositive_counterexample:
  "Pooling_init (-1) 4 128 None Occupancy 0 0 False =
     Inr \<lparr>cell_side = -1, n_cells = 4, pool_type = Occupancy, pool_size = 0, blur_size = 0,
          pooling_dim = 1, front = False, out_dim = 128, embedding_in = 16\<rparr> \<and>
   FastPooling_init (-1) 4 128 None Occupancy 0 0 False =
     Inr \<lparr>cell_side = -1, n_cells = 4, pool_type = Occupancy, pool_size = 0, blur_size = 0,
          pooling_dim = 1, front = False, out_dim = 128, embedding_in = 16\<rparr>"
  by (simp add: Pooling_init_def FastPooling_init_def Linear_def)

subsection \<open>The batched engine reads neither \<open>front\<close> nor \<open>blur_size\<close>\<close>

lemma cell_width_upd [simp]: "cell_width (e\<lparr>front := f, blur_size := b\<rparr>) = cell_width e"
  by (simp add: cell_width_def)

lemma grid_centre_upd [simp]: "grid_centre (e\<lparr>front := f, blur_size := b\<rparr>) = grid_centre e"
  by (simp add: grid_centre_def)

lemma range_mask_upd [simp]: "range_mask (e\<lparr>front := f, blur_size := b\<rparr>) = range_mask e"
  by (simp add: range_mask_def range_violations_def violation_def fun_eq_iff)

lemma linear_index_upd [simp]: "linear_index (e\<lparr>front := f, blur_size := b\<rparr>) = linear_index e"
  by (simp add: linear_index_def fun_eq_iff)

lemma desc_len_upd [simp]: "desc_len (e\<lparr>front := f, blur_size := b\<rparr>) = desc_len e"
  by (simp add: desc_len_def)

lemma grid_side_upd [simp]: "grid_side (e\<lparr>front := f, blur_size := b\<rparr>) = grid_side e"
  by (simp add: grid_side_def)

lemma FastPooling_occupancy_upd:
  "FastPooling_occupancy (e\<lparr>front := f, blur_size := b\<rparr>) obs v = FastPooling_occupancy e obs v"
  by (simp add: FastPooling_occupancy_def Let_def cong: sum.case_cong option.case_cong if_cong)

text \<open>
  C10. Two batched engines that differ in \<open>front\<close> and \<open>blur_size\<close> only, with the
  same embedding, return the same output on every input.
\<close>

theorem FastPooling_ignores_front_and_blur:
  "FastPooling_forward embedding (e\<lparr>front := f, blur_size := b\<rparr>) hidden_state obs1 obs2 =
   FastPooling_forward embedding e hidden_state obs1 obs2"
  by (simp add: FastPooling_forward_def FastPooling_grid_def FastPooling_occupancies_def
      FastPooling_directional_def FastPooling_social_def FastPooling_occupancy_upd
      cong: sum.case_cong variant.case_cong)

subsection \<open>Masks and boolean indexing\<close>


lemma mapE_cong:
  "(\<And>x. x \<in> set xs \<Longrightarrow> f x = g x) \<Longrightarrow> mapE f xs = mapE g xs"
  by (induction xs) (auto split: sum.splits)

lemma mapE_Inr_length: "mapE f xs = Inr ys \<Longrightarrow> length ys = length xs"
  by (induction xs arbitrary: ys) (auto split: sum.splits)

lemma mapE_Inr_nth: "mapE f xs = Inr ys \<Longrightarrow> i < length xs \<Longrightarrow> f (xs ! i) = Inr (ys ! i)"
proof (induction xs arbitrary: ys i)
  case Nil
  then show ?case by simp
next
  case (Cons x xs)
  then show ?case by (cases i) (auto split: sum.splits)
qed

lemma bool_index_pred: "bool_index xs (map P xs) = Inr (filter P xs)"
proof -
  have "map fst (filter snd (zip xs (map P xs))) = filter P xs"
    by (induction xs) auto
  then show ?thesis by (simp add: bool_index_def)
qed

lemma masked_zip:
  "length vs = length xs \<Longrightarrow>
   map fst (filter snd (zip vs (map P xs))) = map fst (filter (\<lambda>(v, x). P x) (zip vs xs))"
  by (induction vs xs rule: list_induct2) auto

lemma bool_index_zip:
  "length vs = length xs \<Longrightarrow>
   bool_index vs (map P xs) = Inr (map fst (filter (\<lambda>(v, x). P x) (zip vs xs)))"
  by (simp add: bool_index_def masked_zip)




lemma length_others [simp]: "i < length xs \<Longrightarrow> length (others i xs) = length xs - 1"
  by (simp add: others_def)

subsection \<open>A NaN neighbour of the per-agent engine\<close>

lemma filter_update_drop:
  assumes "k < length xs" "\<not> P q"
  shows "filter P (xs[k := q]) = filter P (others k xs)"
  using assms by (simp add: upd_conv_take_nth_drop others_def)

lemma zip_others:
  "length vs = length xs \<Longrightarrow> zip (others k vs) (others k xs) = others k (zip vs xs)"
  by (simp add: others_def take_zip drop_zip)

lemma filter_zip_update_drop:
  assumes "k < length xs" "length vs = length xs" "\<not> P q"
  shows "filter (\<lambda>(v, x). P x) (zip (vs[k := u]) (xs[k := q])) =
         filter (\<lambda>(v, x). P x) (zip (others k vs) (others k xs))"
proof -
  have "zip (vs[k := u]) (xs[k := q]) = (zip vs xs)[k := (u, q)]"
    by (simp add: update_zip)
  moreover have "k < length (zip vs xs)" using assms by simp
  ultimately show ?thesis
    using assms filter_update_drop [of k "zip vs xs" "\<lambda>(v, x). P x" "(u, q)"]
    by (simp add: zip_others)
qed

lemma others_replicate: "k < n \<Longrightarrow> others k (replicate n v) = replicate (n - 1) v"
  by (simp add: others_def min_def flip: replicate_add)


lemma replicate_update_same: "(replicate n v)[k := v] = replicate n v"
  by (cases "k < n") (auto simp: list_eq_iff_nth_eq nth_list_update)

lemma Pooling_occupancy_Some:
  "Pooling_occupancy e xy (Some oxy0) ov past_xy =
     (if isnan (fst xy) \<or> oxy0 = [] then Inr (zeros (desc_len e))
      else (case bool_index (case ov of None \<Rightarrow> replicate (length oxy0) (ones 1) | Some v \<Rightarrow> v)
                   (map live oxy0) of
              Inl err \<Rightarrow> Inl err
            | Inr vals \<Rightarrow>
                if filter live oxy0 = [] then Inr (zeros (desc_len e))
                else Pooling_binned e xy (filter live oxy0) vals past_xy))"
proof -
  have "(\<lambda>p. \<not> isnan (fst p)) = live" by (simp add: live_def fun_eq_iff)
  then show ?thesis
    by (auto simp: Pooling_occupancy_def Pooling_binned_def bool_index_pred split: sum.splits)
qed

text \<open>
  C8. In the per-agent engine, the descriptor of an agent does not change when the position
  of its neighbour \<open>k\<close> is replaced by the NaN sentinel instead of removing that
  neighbour and its feature row: the masked neighbour is dropped before any index is
  computed. This holds in both modes, with given feature rows and with the default ones.
\<close>

theorem Pooling_masked_neighbour_is_removed:
  assumes "k < length oxy" and "length vals = length oxy"
  shows "Pooling_occupancy e xy (Some (oxy[k := (NaN, NaN)])) (Some (vals[k := u])) past_xy =
           Pooling_occupancy e xy (Some (others k oxy)) (Some (others k vals)) past_xy \<and>
         Pooling_occupancy e xy (Some (oxy[k := (NaN, NaN)])) None past_xy =
           Pooling_occupancy e xy (Some (others k oxy)) None past_xy"
proof -
  let ?q = "(NaN, NaN) :: pos"
  have nq: "\<not> live ?q" by (simp add: live_def)
  have f1: "filter live (oxy[k := ?q]) = filter live (others k oxy)"
    using assms nq by (intro filter_update_drop) auto
  have f2: "filter (\<lambda>(v, x). live x) (zip (vs[k := w]) (oxy[k := ?q])) =
            filter (\<lambda>(v, x). live x) (zip (others k vs) (others k oxy))"
    if "length vs = length oxy" for vs :: "vec list" and w
    using assms(1) that nq by (intro filter_zip_update_drop) auto
  have b1: "bool_index (vals[k := u]) (map live (oxy[k := ?q])) =
            bool_index (others k vals) (map live (others k oxy))"
    using f2 [OF assms(2), of u] assms by (simp add: bool_index_zip)
  have b2: "bool_index (replicate (length (oxy[k := ?q])) (ones 1)) (map live (oxy[k := ?q])) =
            bool_index (replicate (length (others k oxy)) (ones 1)) (map live (others k oxy))"
  proof -
    have "(replicate (length oxy) (ones 1))[k := ones 1] = replicate (length oxy) (ones 1)"
      by (rule replicate_update_same)
    then show ?thesis
      using f2 [of "replicate (length oxy) (ones 1)" "ones 1"] assms(1)
      by (simp add: bool_index_zip others_replicate)
  qed
  have ne: "oxy[k := ?q] \<noteq> []" using assms(1) by auto
  have e1: "filter live (others k oxy) = []" if "others k oxy = []" using that by simp
  have e2: "bool_index vs (map live (others k oxy)) = Inr []"
    if "others k oxy = []" "length vs = length (others k oxy)" for vs :: "vec list"
    using that by (simp add: bool_index_def)
  have l1: "length (others k vals) = length (others k oxy)" using assms by simp
  show ?thesis
  proof (cases "others k oxy = []")
    case True
    then show ?thesis
      using e2 [OF True l1] e2 [OF True, of "replicate (length (others k oxy)) (ones 1)"]
      by (simp only: Pooling_occupancy_Some f1 b1 b2 e1 [OF True] ne option.case) simp
  next
    case False
    then show ?thesis
      by (simp only: Pooling_occupancy_Some f1 b1 b2 ne option.case)
  qed
qed

subsection \<open>Configurations and positions\<close>


lemma finite_pos_Fin [simp]: "finite_pos (Fin a, Fin b)"
  by (simp add: finite_pos_def)



lemma valid_cell_width:
  "valid_engine e \<Longrightarrow> cell_width e = Inr (cell_side e / real_of_int (pool_size e))"
  "valid_engine e \<Longrightarrow> 0 < cell_side e / real_of_int (pool_size e)"
  by (auto simp: valid_engine_def cell_width_def)

text \<open>range mask on finite values\<close>

lemma range_mask_Fin:
  "range_mask e (Fin a, Fin b) \<longleftrightarrow>
     0 \<le> a \<and> a < real_of_int (n_cells e * pool_size e) \<and>
     0 \<le> b \<and> b < real_of_int (n_cells e * pool_size e)"
  by (auto simp: range_mask_def range_violations_def violation_def)





subsection \<open>Shapes of the pooling operators\<close>










lemma length_concat_const:
  "(\<And>x. x \<in> set xss \<Longrightarrow> length x = m) \<Longrightarrow> length (concat xss) = length xss * m"
  by (induction xss) auto




subsection \<open>The scatter\<close>

lemma broadcast_to_same [simp]: "length v = w \<Longrightarrow> broadcast_to w v = Inr v"
  by (simp add: broadcast_to_def)






subsection \<open>Pooling of the zero tensor\<close>

lemma map_const_replicate: "(\<And>x. x \<in> set xs \<Longrightarrow> f x = c) \<Longrightarrow> map f xs = replicate (length xs) c"
  by (induction xs) auto



lemma block_index: "i < m \<Longrightarrow> a < k \<Longrightarrow> i * k + a < m * (k::nat)"
proof -
  assume "i < m" "a < k"
  then have "i * k + a < (i + 1) * k" by simp
  also have "\<dots> \<le> m * k" using \<open>i < m\<close> by (intro mult_le_mono1) simp
  finally show ?thesis .
qed






subsection \<open>Shape of the descriptor of one agent\<close>






subsection \<open>The scatter after the binning, in both engines\<close>

lemma Pooling_binned_scatter:
  "Pooling_binned e xy oxy vals past_xy =
     (case Pooling_oij e xy oxy past_xy of
        Inl err \<Rightarrow> Inl err
      | Inr oij \<Rightarrow> Pooling_scatter e oij vals)"
  by (auto simp: Pooling_binned_def Pooling_scatter_def split: sum.splits)


lemma cell_of_zero [simp]: "cell_of (Fin 0, Fin 0) = (0, 0)"
  by (simp add: cell_of_def long_pos_def)













subsection \<open>Binning in world axes\<close>




lemma map_nth_upt: "length xs = n \<Longrightarrow> map (\<lambda>i. xs ! i) [0..<n] = xs"
  using map_nth [of xs] by simp



lemma bool_index_all:
  assumes "\<forall>x \<in> set xs. P x" "length vs = length xs"
  shows "bool_index vs (map P xs) = Inr vs"
proof -
  have "filter (\<lambda>(v, x). P x) (zip vs xs) = zip vs xs"
    using assms(1) by (auto simp: filter_id_conv dest: set_zip_rightD)
  then show ?thesis using assms(2) by (simp add: bool_index_zip)
qed



lemma finite_live: "finite_pos p \<Longrightarrow> live p"
  by (simp add: finite_pos_def live_def)




subsection \<open>The rows of the batched engine\<close>






subsection \<open>Scenes of both engines\<close>









lemma take_drop_concat:
  assumes "\<forall>x \<in> set xss. length x = h" "k < length xss"
  shows "take h (drop (k * h) (concat xss)) = xss ! k"
  using assms
proof (induction xss arbitrary: k)
  case Nil
  then show ?case by simp
next
  case (Cons x xss)
  show ?case
  proof (cases k)
    case 0
    then show ?thesis using Cons.prems by simp
  next
    case (Suc k')
    have "drop (h + k' * h) (x @ concat xss) = drop (k' * h) (concat xss)"
      using Cons.prems(1) by simp
    then show ?thesis using Suc Cons.prems Cons.IH [of k'] by simp
  qed
qed

lemma nth_concat_replicate:
  "i < n \<Longrightarrow> j < length xs \<Longrightarrow> concat (replicate n xs) ! (i * length xs + j) = xs ! j"
proof (induction n arbitrary: i)
  case 0
  then show ?case by simp
next
  case (Suc n)
  show ?case
  proof (cases i)
    case 0
    then show ?thesis using Suc.prems by (simp add: nth_append)
  next
    case (Suc i')
    then have "i' < n" using Suc.prems by simp
    then show ?thesis using Suc.IH [of i'] Suc.prems \<open>i = Suc i'\<close> by (simp add: nth_append)
  qed
qed

lemma repeat_view_square:
  assumes "0 < n" "length hs = n" "\<forall>h \<in> set hs. length h = w" "0 < w"
  shows "repeat_view n hs = Inr (replicate n hs)"
proof -
  let ?rows = "concat (replicate n hs)"
  let ?flat = "concat ?rows"
  have rows_w: "\<forall>x \<in> set ?rows. length x = w" using assms(3) by auto
  have len_rows: "length ?rows = n * n"
    using length_concat_const [of "replicate n hs" n] assms(2) by simp
  have len: "length ?flat = n * n * w"
    using length_concat_const [of ?rows w] rows_w len_rows by simp
  have dv: "length ?flat div (n * n) = w" using len assms(1) by simp
  have cell: "take w (drop ((i * n + j) * w) ?flat) = hs ! j" if "i < n" "j < n" for i j
  proof -
    have "i * n + j < n * n" using that by (rule block_index)
    then have "take w (drop ((i * n + j) * w) ?flat) = ?rows ! (i * n + j)"
      using rows_w len_rows by (intro take_drop_concat) simp_all
    also have "\<dots> = hs ! j"
      using nth_concat_replicate [of i n j hs] that assms(2) by simp
    finally show ?thesis .
  qed
  have row: "map (\<lambda>j. take w (drop ((i * n + j) * w) ?flat)) [0..<n] = hs" if "i < n" for i
  proof -
    have "map (\<lambda>j. take w (drop ((i * n + j) * w) ?flat)) [0..<n] = map (\<lambda>j. hs ! j) [0..<n]"
      using cell [OF that] by (intro map_cong) auto
    then show ?thesis using map_nth_upt [OF assms(2)] by simp
  qed
  have "map (\<lambda>i. map (\<lambda>j. take w (drop ((i * n + j) * w) ?flat)) [0..<n]) [0..<n] = replicate n hs"
    using row map_const_replicate [of "[0..<n]" _ hs] by simp
  moreover have "\<not> (n = 0 \<or> length ?flat = 0 \<or> length ?flat mod (n * n) \<noteq> 0)"
    using len assms(1,4) by simp
  ultimately show ?thesis
    unfolding repeat_view_def Let_def dv by (simp only: if_False)
qed

subsection \<open>Agreement of the engines\<close>





subsection \<open>Concrete scenes\<close>

lemmas eval_defs =
  FastPooling_grid_def Pooling_grid_def
  FastPooling_occupancies_def FastPooling_occupancy_def delete_diagonal_def one_cold_def
  cell_width_def grid_centre_def bin_axis_def psub_def range_mask_def range_violations_def
  violation_def long_pos_def linear_index_def zeros_def ones_def occ_2d_def lp_pool2d_def
  avg_pool2d_def pad2d_def pool_out_def fsum_def flatten_def grid_side_def desc_len_def
  broadcast_to_def Pooling_occupancies_def Pooling_occupancy_def Pooling_oij_def
  Pooling_pool_def bool_index_def stack_def

lemma upt_2 [simp]: "[0..<2] = [0, Suc 0]" "[0..<3] = [0, Suc 0, 2]"
  by (simp_all add: upt_rec)



text \<open>A masked second neighbour, and the scene without it.\<close>

theorem Pooling_masked_neighbour_is_removed_witness:
  "Pooling_occupancy small_engine (Fin 0, Fin 0) (Some [(Fin 1, Fin 1), (NaN, NaN)]) None None =
     Pooling_occupancy small_engine (Fin 0, Fin 0) (Some [(Fin 1, Fin 1)]) None None \<and>
   Pooling_occupancy small_engine (Fin 0, Fin 0) (Some [(Fin 1, Fin 1)]) None None =
     Inr [Fin 0, Fin 0, Fin 0, Fin 1]"
proof -
  have "Pooling_occupancy small_engine (Fin 0, Fin 0) (Some [(Fin 1, Fin 1)]) None None =
     Inr [Fin 0, Fin 0, Fin 0, Fin 1]"
    by (simp add: eval_defs small_engine_def eval_nat_numeral)
  then show ?thesis
    using Pooling_masked_neighbour_is_removed
      [of 1 "[(Fin 1, Fin 1), (Fin 5, Fin 5)]" "[[Fin 1], [Fin 1]]" small_engine "(Fin 0, Fin 0)"
          "[Fin 1]" None]
    by (simp add: others_def)
qed

subsection \<open>A neighbour out of range in the batched engine\<close>

text \<open>
  C3, at a failing input. With \<open>n = 2\<close>, \<open>cell_side = 2\<close> and \<open>pool_size = 1\<close> the
  range of an offset is \<open>[-2, 2)\<close>. The first agent has a neighbour in sub-cell (0,0)
  and a later neighbour at offset 100: the batched engine writes the zeroed row of the far
  neighbour into sub-cell 0 and loses the near one, whereas without the far neighbour,
  and in the per-agent engine, the descriptor of the first agent starts with 1.
\<close>

theorem FastPooling_out_of_range_clobbers:
  "FastPooling_grid small_engine [] [] [(Fin 0, Fin 0), (Fin (-2), Fin (-2)), (Fin 100, Fin 100)] =
     Inr [[Fin 0, Fin 0, Fin 0, Fin 0], [Fin 0, Fin 0, Fin 0, Fin 0], [Fin 0, Fin 0, Fin 0, Fin 0]] \<and>
   FastPooling_grid small_engine [] [] [(Fin 0, Fin 0), (Fin (-2), Fin (-2))] =
     Inr [[Fin 1, Fin 0, Fin 0, Fin 0], [Fin 0, Fin 0, Fin 0, Fin 0]] \<and>
   Pooling_grid small_engine [] [] [(Fin 0, Fin 0), (Fin (-2), Fin (-2)), (Fin 100, Fin 100)] =
     Inr [[Fin 1, Fin 0, Fin 0, Fin 0], [Fin 0, Fin 0, Fin 0, Fin 0], [Fin 0, Fin 0, Fin 0, Fin 0]]"
  by (simp add: eval_defs small_engine_def eval_nat_numeral Let_def)

subsection \<open>Neighbours in the same sub-cell\<close>

text \<open>
  C4, at a failing input. The neighbours with features 20 and 30 of the first agent share
  sub-cell (0,0) and a third neighbour is out of range: the per-agent engine keeps 30, the
  feature of the later one, but the batched engine ends with 0 in that sub-cell (and the
  same happens to the third agent, whose neighbour with feature 20 lies in its sub-cell
  (0,0)).
\<close>

theorem FastPooling_collision_then_out_of_range:
  "FastPooling_grid social_engine [[Fin 10], [Fin 20], [Fin 30], [Fin 40]] []
     [(Fin 0, Fin 0), (Fin (-2), Fin (-2)), (Fin (-3/2), Fin (-3/2)), (Fin 100, Fin 100)] =
     Inr [[Fin 0, Fin 0, Fin 0, Fin 0], [Fin 0, Fin 0, Fin 0, Fin 30],
          [Fin 0, Fin 0, Fin 0, Fin 10], [Fin 0, Fin 0, Fin 0, Fin 0]] \<and>
   Pooling_grid social_engine [[Fin 10], [Fin 20], [Fin 30], [Fin 40]] []
     [(Fin 0, Fin 0), (Fin (-2), Fin (-2)), (Fin (-3/2), Fin (-3/2)), (Fin 100, Fin 100)] =
     Inr [[Fin 30, Fin 0, Fin 0, Fin 0], [Fin 0, Fin 0, Fin 0, Fin 30],
          [Fin 20, Fin 0, Fin 0, Fin 10], [Fin 0, Fin 0, Fin 0, Fin 0]]"
proof -
  have rv: "repeat_view (Suc (Suc (Suc (Suc 0)))) [[Fin 10], [Fin 20], [Fin 30], [Fin 40]] =
            Inr (replicate (Suc (Suc (Suc (Suc 0)))) [[Fin 10], [Fin 20], [Fin 30], [Fin 40]])"
    by (rule repeat_view_square [where w = 1]) simp_all
  have "FastPooling_grid social_engine [[Fin 10], [Fin 20], [Fin 30], [Fin 40]] []
     [(Fin 0, Fin 0), (Fin (-2), Fin (-2)), (Fin (-3/2), Fin (-3/2)), (Fin 100, Fin 100)] =
     Inr [[Fin 0, Fin 0, Fin 0, Fin 0], [Fin 0, Fin 0, Fin 0, Fin 30],
          [Fin 0, Fin 0, Fin 0, Fin 10], [Fin 0, Fin 0, Fin 0, Fin 0]]"
    by (simp add: FastPooling_grid_def FastPooling_social_def social_engine_def rv)
       (simp add: eval_defs eval_nat_numeral Let_def)
  moreover have "Pooling_grid social_engine [[Fin 10], [Fin 20], [Fin 30], [Fin 40]] []
     [(Fin 0, Fin 0), (Fin (-2), Fin (-2)), (Fin (-3/2), Fin (-3/2)), (Fin 100, Fin 100)] =
     Inr [[Fin 30, Fin 0, Fin 0, Fin 0], [Fin 0, Fin 0, Fin 0, Fin 30],
          [Fin 20, Fin 0, Fin 0, Fin 10], [Fin 0, Fin 0, Fin 0, Fin 0]]"
    by (simp add: eval_defs Pooling_social_def social_engine_def eval_nat_numeral Let_def)
  ultimately show ?thesis by (rule conjI)
qed

subsection \<open>Degenerate geometry\<close>












lemma far_neighbour_out_of_range:
  assumes "valid_engine e"
    and "real_of_int (n_cells e) * cell_side e / 2 < \<bar>a - x\<bar> \<or>
         real_of_int (n_cells e) * cell_side e / 2 < \<bar>b - y\<bar>"
  shows "\<not> range_mask e (world_oij e (Fin x, Fin y) (Fin a, Fin b))"
proof -
  let ?w = "cell_side e / real_of_int (pool_size e)"
  let ?c = "real_of_int (n_cells e * pool_size e) / 2"
  have cs: "0 < cell_side e" and ps: "0 < real_of_int (pool_size e)"
    using assms(1) by (auto simp: valid_engine_def)
  have w: "0 < ?w" using cs ps by simp
  have half: "?c * ?w = real_of_int (n_cells e) * cell_side e / 2" using ps by simp
  have out: "d / ?w + ?c < 0 \<or> real_of_int (n_cells e * pool_size e) \<le> d / ?w + ?c"
    if "real_of_int (n_cells e) * cell_side e / 2 < \<bar>d\<bar>" for d
  proof (cases "0 \<le> d")
    case True
    then have "?c * ?w < d" using that unfolding half by linarith
    then have "?c < d / ?w" using pos_less_divide_eq [OF w, of ?c d] by blast
    then show ?thesis by linarith
  next
    case False
    then have "d < - (?c * ?w)" using that unfolding half by linarith
    then have "d < (- ?c) * ?w" by (simp only: mult_minus_left)
    then have "d / ?w < - ?c" using pos_divide_less_eq [OF w, of d "- ?c"] by blast
    then show ?thesis by linarith
  qed
  have "world_oij e (Fin x, Fin y) (Fin a, Fin b) =
        (Fin ((a - x) / ?w + ?c), Fin ((b - y) / ?w + ?c))"
    using cs ps by (simp add: world_oij_def psub_def bin_axis_def grid_centre_def)
  then show ?thesis
    using assms(2) out [of "a - x"] out [of "b - y"]
    by (auto simp: range_mask_Fin simp del: of_int_mult)
qed



subsection \<open>Front mode\<close>

lemma rotation_Fin:
  "rotation (Fin x, Fin y) (Fin px, Fin py) =
     ((Fin (cos (heading_theta x y px py)), Fin (sin (heading_theta x y px py))),
      (Fin (- sin (heading_theta x y px py)), Fin (cos (heading_theta x y px py))))"
  by (simp add: rotation_def heading_theta_def Let_def)

lemma einsum_Fin:
  "einsum (Fin u, Fin v) ((Fin ct, Fin st), (Fin (- st), Fin ct)) =
     (Fin (u * ct - v * st), Fin (u * st + v * ct))"
  by (simp add: einsum_def)

lemma front_oij_Fin:
  assumes "valid_engine e"
  shows "front_oij e (Fin x, Fin y) (Fin px, Fin py) (Fin a, Fin b) =
     (Fin (((a - x) * cos (heading_theta x y px py) - (b - y) * sin (heading_theta x y px py)) /
             (cell_side e / real_of_int (pool_size e)) +
           real_of_int (n_cells e * pool_size e) / 2),
      Fin (((a - x) * sin (heading_theta x y px py) + (b - y) * cos (heading_theta x y px py)) /
             (cell_side e / real_of_int (pool_size e))))"
proof -
  have cs: "cell_side e \<noteq> 0" and ps: "pool_size e \<noteq> 0"
    using assms by (auto simp: valid_engine_def)
  show ?thesis
    using cs ps
    by (simp add: front_oij_def rotation_Fin psub_def einsum_Fin bin_axis_def grid_centre_def)
qed


lemma Pooling_oij_front:
  assumes "valid_engine e" "front e"
  shows "Pooling_oij e xy oxy (Some past) = Inr (map (front_oij e xy past) oxy)"
  using assms(2) valid_cell_width(1) [OF assms(1)]
  by (simp add: Pooling_oij_def front_oij_def)

lemma Pooling_occupancy_front:
  assumes "valid_engine e" "front e" "finite_pos xy" "\<forall>p \<in> set oxy. finite_pos p"
    and "oxy \<noteq> []" "length vals = length oxy"
  shows "Pooling_occupancy e xy (Some oxy) (Some vals) (Some past) =
           Pooling_scatter e (map (front_oij e xy past) oxy) vals"
proof -
  have l: "\<forall>p \<in> set oxy. live p" using assms(4) finite_live by blast
  then have f: "filter live oxy = oxy" by simp
  have n: "\<not> isnan (fst xy)" using assms(3) by (simp add: finite_pos_def)
  have b: "bool_index vals (map live oxy) = Inr vals"
    using l assms(6) by (rule bool_index_all)
  show ?thesis
    using n assms(5) b
    by (simp add: Pooling_occupancy_Some f Pooling_binned_scatter Pooling_oij_front [OF assms(1,2)])
qed

text \<open>
  C7 (as the code has it). In front mode the per-agent engine builds the matrix
  \<open>[[cos \<theta>, sin \<theta>], [- sin \<theta>, cos \<theta>]]\<close> with
  \<open>\<theta> = \<pi>/2 - arctan2(dy, dx)\<close> from the displacement of the agent, and it rotates the
  offsets of the neighbours by it before binning them, the first axis around the centre of
  the grid and the second from 0. The feature rows, relative velocities included, are
  scattered as they are given: only the offsets are rotated.
\<close>

theorem front_rotates_offsets_only:
  assumes "valid_engine e" "front e"
  shows "rotation (Fin x, Fin y) (Fin px, Fin py) =
           ((Fin (cos (heading_theta x y px py)), Fin (sin (heading_theta x y px py))),
            (Fin (- sin (heading_theta x y px py)), Fin (cos (heading_theta x y px py)))) \<and>
         heading_theta x y px py = pi / 2 - arctan2 (y - py) (x - px) \<and>
         front_oij e (Fin x, Fin y) (Fin px, Fin py) (Fin a, Fin b) =
           (Fin (((a - x) * cos (heading_theta x y px py) - (b - y) * sin (heading_theta x y px py)) /
                   (cell_side e / real_of_int (pool_size e)) +
                 real_of_int (n_cells e * pool_size e) / 2),
            Fin (((a - x) * sin (heading_theta x y px py) + (b - y) * cos (heading_theta x y px py)) /
                   (cell_side e / real_of_int (pool_size e)))) \<and>
         Pooling_oij e xy oxy (Some past) = Inr (map (front_oij e xy past) oxy) \<and>
         (finite_pos xy \<and> (\<forall>p \<in> set oxy. finite_pos p) \<and> oxy \<noteq> [] \<and> length vals = length oxy \<longrightarrow>
            Pooling_occupancy e xy (Some oxy) (Some vals) (Some past) =
              Pooling_scatter e (map (front_oij e xy past) oxy) vals)"
  using rotation_Fin [of x y px py] front_oij_Fin [OF assms(1), of x y px py a b]
    Pooling_oij_front [OF assms, of xy oxy past]
    Pooling_occupancy_front [OF assms, of xy oxy vals past]
  by (simp add: heading_theta_def)

lemma theta_east [simp]: "heading_theta 0 0 (-1) 0 = pi / 2"
  by (simp add: heading_theta_def arctan2_def)

lemma theta_rest [simp]: "heading_theta 1 0 1 0 = pi / 2"
  by (simp add: heading_theta_def arctan2_def)

text \<open>
  The claim C7 as the specification states it fails for the feature vectors. The first
  agent moves along the first axis and its neighbour rests: the relative velocity is
  \<open>(-1, 0)\<close>, rotated it would be \<open>(0, -1)\<close>, and the descriptor holds \<open>(-1, 0)\<close>.
\<close>

theorem front_keeps_velocity_counterexample:
  "Pooling_grid front_directional_engine [] [(Fin (-1), Fin 0), (Fin 1, Fin 0)]
     [(Fin 0, Fin 0), (Fin 1, Fin 0)] = Inr [[Fin (-1), Fin 0], [Fin 0, Fin 0]] \<and>
   einsum (Fin (-1), Fin 0) (rotation (Fin 0, Fin 0) (Fin (-1), Fin 0)) = (Fin 0, Fin (-1))"
  by (simp add: eval_defs Pooling_front_directional_def rel_velocities_def tensor_sub_def
      index_def vec_of_def rotation_Fin einsum_def front_directional_engine_def
      eval_nat_numeral Let_def)

text \<open>An agent that moves along the first axis sees a neighbour ahead of it.\<close>

theorem front_rotates_offsets_only_witness:
  "front_oij front_directional_engine (Fin 0, Fin 0) (Fin (-1), Fin 0) (Fin 1, Fin 0) =
     (Fin (1/2), Fin (1/2)) \<and>
   Pooling_oij front_directional_engine (Fin 0, Fin 0) [(Fin 1, Fin 0)] (Some (Fin (-1), Fin 0)) =
     Inr [(Fin (1/2), Fin (1/2))] \<and>
   Pooling_occupancy front_directional_engine (Fin 0, Fin 0) (Some [(Fin 1, Fin 0)])
     (Some [[Fin (-1), Fin 0]]) (Some (Fin (-1), Fin 0)) = Inr [Fin (-1), Fin 0]"
proof -
  have v: "valid_engine front_directional_engine"
    by (simp add: valid_engine_def front_directional_engine_def)
  have f: "front front_directional_engine" by (simp add: front_directional_engine_def)
  have s: "Pooling_scatter front_directional_engine [(Fin (1/2), Fin (1/2))] [[Fin (-1), Fin 0]] =
      Inr [Fin (-1), Fin 0]"
    by (simp add: Pooling_scatter_def eval_defs front_directional_engine_def eval_nat_numeral Let_def)
  show ?thesis
    using front_rotates_offsets_only [OF v f, of 0 0 "-1" 0 1 0 "(Fin 0, Fin 0)" "[(Fin 1, Fin 0)]"
        "(Fin (-1), Fin 0)" "[[Fin (-1), Fin 0]]"] s
    by (simp add: front_directional_engine_def finite_pos_def)
qed

subsection \<open>Binning of offsets\<close>








lemma theta_north [simp]: "heading_theta 0 0 0 (-1) = 0"
  by (simp add: heading_theta_def arctan2_def)



subsection \<open>Shape of the result\<close>

lemma length_zeros [simp]: "length (zeros k) = k"
  by (simp add: zeros_def)














end
